theory Spec2Isabelle
  imports Main "HOL-Library.Word" "HOL-Library.Multiset"
begin

section \<open>Shared types\<close>

text \<open>
  The C++ type \<open>uint\<close> is a 32-bit unsigned integer; arithmetic on it wraps around.
\<close>

type_synonym uint = "32 word"

text \<open>
  Programming faults. The sources have no exception path; an assertion that fails or an
  access outside a container stops the program. Each such stop is a value of this type.
\<close>

datatype fault =
    IndexOutOfRange
  | SocketNotMapped
  | ElementNotNew
  | StackUnderflow

section \<open>LazyState (FN\_tuple\_call.hpp)\<close>

record LazyState =
  m_entry_count :: uint
  m_is_done :: bool
  m_user_data :: nat
  m_requested_inputs :: "uint list"

definition LazyState_new :: "nat \<Rightarrow> LazyState" where
  "LazyState_new user_data =
     \<lparr>m_entry_count = 0, m_is_done = False, m_user_data = user_data, m_requested_inputs = []\<rparr>"

definition start_next_entry :: "LazyState \<Rightarrow> LazyState" where
  "start_next_entry s = s\<lparr>m_entry_count := m_entry_count s + 1, m_requested_inputs := []\<rparr>"

definition request_input :: "LazyState \<Rightarrow> uint \<Rightarrow> LazyState" where
  "request_input s index = s\<lparr>m_requested_inputs := m_requested_inputs s @ [index]\<rparr>"

text \<open>\<open>LazyState::done\<close>; the name \<open>done\<close> is reserved in Isabelle, hence the suffix.\<close>

definition done_lazy :: "LazyState \<Rightarrow> LazyState" where
  "done_lazy s = s\<lparr>m_is_done := True\<rparr>"

definition requested_inputs :: "LazyState \<Rightarrow> uint list" where
  "requested_inputs s = m_requested_inputs s"

definition is_first_entry :: "LazyState \<Rightarrow> bool" where
  "is_first_entry s = (m_entry_count s = 1)"

definition is_done :: "LazyState \<Rightarrow> bool" where
  "is_done s = m_is_done s"

definition user_data :: "LazyState \<Rightarrow> nat" where
  "user_data s = m_user_data s"

text \<open>
  The three mutating member functions of \<open>LazyState\<close>, as the operations a caller or a
  body can apply to a state, and the state reached by a sequence of them.
\<close>

datatype LazyOp = StartNextEntry | RequestInput uint | Done

fun apply_op :: "LazyState \<Rightarrow> LazyOp \<Rightarrow> LazyState" where
  "apply_op s StartNextEntry = start_next_entry s"
| "apply_op s (RequestInput index) = request_input s index"
| "apply_op s Done = done_lazy s"

fun run_ops :: "LazyState \<Rightarrow> LazyOp list \<Rightarrow> LazyState" where
  "run_ops s [] = s"
| "run_ops s (x # xs) = run_ops (apply_op s x) xs"

section \<open>Execution context and tuple-call bodies (FN\_tuple\_call.hpp)\<close>

text \<open>
  Stack frames. \<open>TextStackFrame\<close> and \<open>SourceInfoStackFrame\<close> are the two frame classes
  the header constructs; a caller-supplied \<open>StackFrame &\<close> may be of any other subclass.
  A \<open>SourceInfo *\<close> is a pointer, possibly null.
\<close>

datatype StackFrame =
    TextStackFrame string
  | SourceInfoStackFrame "nat option"
  | OtherStackFrame nat

text \<open>
  Modelled from the spec: \<open>ExecutionContext\<close> and \<open>ExecutionStack\<close> (execution\_context.hpp)
  are not part of the sources. The spec describes an execution context holding a call-stack
  of diagnostic frames; \<open>push\<close> puts a frame on top and \<open>pop\<close> removes the top frame.
  The list holds the top frame first. Popping an empty stack is a fault.
\<close>

record ExecutionContext =
  stack :: "StackFrame list"

definition push :: "ExecutionContext \<Rightarrow> StackFrame \<Rightarrow> ExecutionContext" where
  "push ctx frame = ctx\<lparr>stack := frame # stack ctx\<rparr>"

definition pop :: "ExecutionContext \<Rightarrow> fault + ExecutionContext" where
  "pop ctx = (case stack ctx of [] \<Rightarrow> Inl StackUnderflow | _ # below \<Rightarrow> Inr (ctx\<lparr>stack := below\<rparr>))"

text \<open>
  A tuple is a sequence of slots, each initialized with a value or not. The claims do not
  depend on the values.
\<close>

type_synonym Tuple = "nat option list"

text \<open>
  A \<open>TupleCallBody\<close> is given by the name of its owning Function and by its implementation of
  the pure virtual \<open>call\<close>, which receives the two tuples and the execution context by
  reference; the model returns all three as \<open>call\<close> leaves them.
\<close>

record TupleCallBody =
  owner_name :: string
  call :: "Tuple \<Rightarrow> Tuple \<Rightarrow> ExecutionContext \<Rightarrow> Tuple \<times> Tuple \<times> ExecutionContext"

definition call__setup_stack ::
  "TupleCallBody \<Rightarrow> Tuple \<Rightarrow> Tuple \<Rightarrow> ExecutionContext
     \<Rightarrow> fault + (Tuple \<times> Tuple \<times> ExecutionContext)" where
  "call__setup_stack this fn_in fn_out ctx =
     (let frame = TextStackFrame (owner_name this);
          ctx1 = push ctx frame
      in case call this fn_in fn_out ctx1 of
           (fn_in', fn_out', ctx2) \<Rightarrow>
             (case pop ctx2 of
                Inl f \<Rightarrow> Inl f
              | Inr ctx3 \<Rightarrow> Inr (fn_in', fn_out', ctx3)))"

definition call__setup_stack_extra ::
  "TupleCallBody \<Rightarrow> Tuple \<Rightarrow> Tuple \<Rightarrow> ExecutionContext \<Rightarrow> StackFrame
     \<Rightarrow> fault + (Tuple \<times> Tuple \<times> ExecutionContext)" where
  "call__setup_stack_extra this fn_in fn_out ctx extra_frame =
     (let ctx1 = push ctx extra_frame
      in case call__setup_stack this fn_in fn_out ctx1 of
           Inl f \<Rightarrow> Inl f
         | Inr (fn_in', fn_out', ctx2) \<Rightarrow>
             (case pop ctx2 of
                Inl f \<Rightarrow> Inl f
              | Inr ctx3 \<Rightarrow> Inr (fn_in', fn_out', ctx3)))"

definition call__setup_stack_source ::
  "TupleCallBody \<Rightarrow> Tuple \<Rightarrow> Tuple \<Rightarrow> ExecutionContext \<Rightarrow> nat option
     \<Rightarrow> fault + (Tuple \<times> Tuple \<times> ExecutionContext)" where
  "call__setup_stack_source this fn_in fn_out ctx source_info =
     (let frame = SourceInfoStackFrame source_info
      in call__setup_stack_extra this fn_in fn_out ctx frame)"

definition call__setup_execution_context ::
  "TupleCallBody \<Rightarrow> Tuple \<Rightarrow> Tuple \<Rightarrow> fault + (Tuple \<times> Tuple \<times> ExecutionContext)" where
  "call__setup_execution_context this fn_in fn_out =
     (let ctx = \<lparr>stack = []\<rparr> in call__setup_stack this fn_in fn_out ctx)"

text \<open>
  \<open>LazyInTupleCallBody\<close>: the same, with the \<open>LazyState\<close> passed by reference as well.
\<close>

record LazyInTupleCallBody =
  lazy_owner_name :: string
  lazy_call :: "Tuple \<Rightarrow> Tuple \<Rightarrow> ExecutionContext \<Rightarrow> LazyState
                  \<Rightarrow> Tuple \<times> Tuple \<times> ExecutionContext \<times> LazyState"

definition lazy_call__setup_stack ::
  "LazyInTupleCallBody \<Rightarrow> Tuple \<Rightarrow> Tuple \<Rightarrow> ExecutionContext \<Rightarrow> LazyState
     \<Rightarrow> fault + (Tuple \<times> Tuple \<times> ExecutionContext \<times> LazyState)" where
  "lazy_call__setup_stack this fn_in fn_out ctx state =
     (let frame = TextStackFrame (lazy_owner_name this);
          ctx1 = push ctx frame
      in case lazy_call this fn_in fn_out ctx1 state of
           (fn_in', fn_out', ctx2, state') \<Rightarrow>
             (case pop ctx2 of
                Inl f \<Rightarrow> Inl f
              | Inr ctx3 \<Rightarrow> Inr (fn_in', fn_out', ctx3, state')))"

definition lazy_call__setup_stack_extra ::
  "LazyInTupleCallBody \<Rightarrow> Tuple \<Rightarrow> Tuple \<Rightarrow> ExecutionContext \<Rightarrow> LazyState \<Rightarrow> StackFrame
     \<Rightarrow> fault + (Tuple \<times> Tuple \<times> ExecutionContext \<times> LazyState)" where
  "lazy_call__setup_stack_extra this fn_in fn_out ctx state extra_frame =
     (let ctx1 = push ctx extra_frame
      in case lazy_call__setup_stack this fn_in fn_out ctx1 state of
           Inl f \<Rightarrow> Inl f
         | Inr (fn_in', fn_out', ctx2, state') \<Rightarrow>
             (case pop ctx2 of
                Inl f \<Rightarrow> Inl f
              | Inr ctx3 \<Rightarrow> Inr (fn_in', fn_out', ctx3, state')))"

definition lazy_call__setup_stack_source ::
  "LazyInTupleCallBody \<Rightarrow> Tuple \<Rightarrow> Tuple \<Rightarrow> ExecutionContext \<Rightarrow> LazyState \<Rightarrow> nat option
     \<Rightarrow> fault + (Tuple \<times> Tuple \<times> ExecutionContext \<times> LazyState)" where
  "lazy_call__setup_stack_source this fn_in fn_out ctx state source_info =
     (let frame = SourceInfoStackFrame source_info
      in lazy_call__setup_stack_extra this fn_in fn_out ctx state frame)"

text \<open>Two concrete bodies: one whose \<open>call\<close> does nothing, one whose \<open>call\<close> pushes a frame
  of its own and returns without popping it.\<close>

definition idle_body :: TupleCallBody where
  "idle_body = \<lparr>owner_name = ''f'', call = (\<lambda>fn_in fn_out ctx. (fn_in, fn_out, ctx))\<rparr>"

definition idle_lazy_body :: LazyInTupleCallBody where
  "idle_lazy_body =
     \<lparr>lazy_owner_name = ''g'',
      lazy_call = (\<lambda>fn_in fn_out ctx state. (fn_in, fn_out, ctx, done_lazy state))\<rparr>"

definition pushing_body :: TupleCallBody where
  "pushing_body =
     \<lparr>owner_name = ''f'',
      call = (\<lambda>fn_in fn_out ctx. (fn_in, fn_out, push ctx (OtherStackFrame 0)))\<rparr>"

section \<open>Virtual node tree and data-flow graph\<close>

text \<open>
  The mutable node tree (\<open>bNodeTree\<close>, DNA\_node\_types.h, not part of the sources): its ID
  name, its nodes in order, each with an idname and its input and output sockets in declared
  order, and its links. A socket is identified by a number (its address in the C data).
\<close>

record bNode =
  b_idname :: string
  b_inputs :: "nat list"
  b_outputs :: "nat list"

record bNodeTree =
  id_name :: string
  b_nodes :: "bNode list"
  b_links :: "(nat \<times> nat) list"

datatype VirtualSocket = VirtualSocket nat

record VirtualNode =
  idname :: string
  inputs :: "VirtualSocket list"
  outputs :: "VirtualSocket list"

text \<open>
  Modelled from the spec: \<open>VirtualNodeTree\<close> is not part of the sources. The spec describes it
  as a frozen, indexed read-only view over the mutable node graph, in which a virtual node
  has an ordered list of input and output sockets: \<open>add_all_of_tree\<close> adds a virtual node
  for every node of the tree, in order, and the links; \<open>freeze_and_index\<close> freezes the view;
  \<open>nodes_with_idname\<close> gives the nodes of one kind, in tree order.
\<close>

record VirtualNodeTree =
  m_nodes :: "VirtualNode list"
  m_links :: "(VirtualSocket \<times> VirtualSocket) list"
  m_frozen :: bool

definition VirtualNodeTree_new :: VirtualNodeTree where
  "VirtualNodeTree_new = \<lparr>m_nodes = [], m_links = [], m_frozen = False\<rparr>"

definition virtual_node_of :: "bNode \<Rightarrow> VirtualNode" where
  "virtual_node_of bnode =
     \<lparr>idname = b_idname bnode,
      inputs = map VirtualSocket (b_inputs bnode),
      outputs = map VirtualSocket (b_outputs bnode)\<rparr>"

definition add_all_of_tree :: "VirtualNodeTree \<Rightarrow> bNodeTree \<Rightarrow> VirtualNodeTree" where
  "add_all_of_tree vtree btree =
     vtree\<lparr>m_nodes := m_nodes vtree @ map virtual_node_of (b_nodes btree),
           m_links := m_links vtree
                        @ map (\<lambda>(a, b). (VirtualSocket a, VirtualSocket b)) (b_links btree)\<rparr>"

definition freeze_and_index :: "VirtualNodeTree \<Rightarrow> VirtualNodeTree" where
  "freeze_and_index vtree = vtree\<lparr>m_frozen := True\<rparr>"

definition nodes_with_idname :: "VirtualNodeTree \<Rightarrow> string \<Rightarrow> VirtualNode list" where
  "nodes_with_idname vtree name = filter (\<lambda>vnode. idname vnode = name) (m_nodes vtree)"

text \<open>\<open>get(index, fallback)\<close> with the fallback \<open>nullptr\<close>: the element if the index is in
  range, no node otherwise.\<close>

definition get_or_null :: "'a list \<Rightarrow> nat \<Rightarrow> 'a option" where
  "get_or_null xs index = (if index < length xs then Some (xs ! index) else None)"

text \<open>\<open>size()\<close> of a socket list, a \<open>uint\<close>.\<close>

definition size_uint :: "'a list \<Rightarrow> uint" where
  "size_uint xs = of_nat (length xs)"

text \<open>\<open>input(i)\<close> and \<open>output(i)\<close>: the i-th socket; an index outside the list is a fault.\<close>

definition socket_at :: "VirtualSocket list \<Rightarrow> uint \<Rightarrow> fault + VirtualSocket" where
  "socket_at sockets i =
     (if unat i < length sockets then Inr (sockets ! unat i) else Inl IndexOutOfRange)"

datatype DataSocket = DataSocket nat

record DataGraph =
  dg_links :: "(DataSocket \<times> DataSocket) list"

text \<open>
  Modelled from the spec: \<open>VTreeDataGraph\<close> is not part of the sources. It holds the data-flow
  graph built for a virtual tree and the mapping of virtual sockets onto data sockets
  (many-to-one). According to the spec the lookup must succeed for every socket considered,
  and a failing lookup is a programming fault.
\<close>

record VTreeDataGraph =
  graph :: DataGraph
  m_socket_map :: "VirtualSocket \<rightharpoonup> DataSocket"

definition lookup_socket :: "VTreeDataGraph \<Rightarrow> VirtualSocket \<Rightarrow> fault + DataSocket" where
  "lookup_socket data_graph vsocket =
     (case m_socket_map data_graph vsocket of
        None \<Rightarrow> Inl SocketNotMapped
      | Some socket \<Rightarrow> Inr socket)"

text \<open>
  Modelled from the spec: \<open>VectorSet\<close> is not part of the sources. The spec describes the
  interface sets as ordered and deduplicated, with the insertion order preserved. The set is
  the list of its elements in insertion order; \<open>add_new\<close> inserts an element that is not in
  the set yet, and inserting one that is already there is a fault.
\<close>

type_synonym 'a VectorSet = "'a list"

definition add_new :: "'a VectorSet \<Rightarrow> 'a \<Rightarrow> fault + 'a VectorSet" where
  "add_new s v = (if v \<in> set s then Inl ElementNotNew else Inr (s @ [v]))"

section \<open>Interface socket discovery (function\_generation.cpp)\<close>

text \<open>
  The two loops of \<open>find_interface_sockets\<close>,
  \<^verbatim>\<open>for (uint i = 0; i < sockets.size() - 1; i++) { r.add_new(data_graph.lookup_socket(socket(i))); }\<close>,
  differ only in the socket list they run over. \<open>interface_loop\<close> is the loop from the
  counter value \<open>i\<close> on, with the bound already computed (in \<open>uint\<close> arithmetic).
\<close>

function interface_loop ::
  "VTreeDataGraph \<Rightarrow> VirtualSocket list \<Rightarrow> uint \<Rightarrow> uint \<Rightarrow> DataSocket VectorSet
     \<Rightarrow> fault + DataSocket VectorSet" where
  "interface_loop data_graph sockets bound i r =
     (if i < bound then
        (case socket_at sockets i of
           Inl f \<Rightarrow> Inl f
         | Inr vsocket \<Rightarrow>
             (case lookup_socket data_graph vsocket of
                Inl f \<Rightarrow> Inl f
              | Inr socket \<Rightarrow>
                  (case add_new r socket of
                     Inl f \<Rightarrow> Inl f
                   | Inr r' \<Rightarrow> interface_loop data_graph sockets bound (i + 1) r')))
      else Inr r)"
  by pat_completeness auto
termination
proof (relation "measure (\<lambda>(data_graph, sockets, bound, i, r). unat bound - unat i)")
  show "wf (measure (\<lambda>(data_graph :: VTreeDataGraph, sockets :: VirtualSocket list,
                        bound :: uint, i :: uint, r :: DataSocket VectorSet).
                       unat bound - unat i))"
    by simp
next
  fix data_graph :: VTreeDataGraph and sockets :: "VirtualSocket list"
    and bound i :: uint and r r' :: "DataSocket VectorSet"
  assume "i < bound"
  then have below: "unat i < unat bound"
    by (simp add: word_less_nat_alt)
  have "unat bound < 2 ^ 32"
    using unsigned_less [of bound, where 'a = nat] by simp
  with below have "unat i + unat (1 :: uint) < 2 ^ LENGTH(32)"
    by simp
  then have "unat (i + 1) = unat i + unat (1 :: uint)"
    by (simp only: unat_add_lem)
  then have "unat (i + 1) = Suc (unat i)"
    by simp
  with below
  show "((data_graph, sockets, bound, i + 1, r'), (data_graph, sockets, bound, i, r))
          \<in> measure (\<lambda>(data_graph, sockets, bound, i, r). unat bound - unat i)"
    by simp
qed

text \<open>
  \<open>find_interface_sockets\<close>. The two sets are passed by reference; the model takes them as
  they are on entry and returns them as they are on exit.
\<close>

definition find_interface_sockets ::
  "VirtualNodeTree \<Rightarrow> VTreeDataGraph \<Rightarrow> DataSocket VectorSet \<Rightarrow> DataSocket VectorSet
     \<Rightarrow> fault + (DataSocket VectorSet \<times> DataSocket VectorSet)" where
  "find_interface_sockets vtree data_graph r_inputs r_outputs =
     (let input_node = get_or_null (nodes_with_idname vtree ''fn_FunctionInputNode'') 0;
          output_node = get_or_null (nodes_with_idname vtree ''fn_FunctionOutputNode'') 0
      in case (case input_node of
                 None \<Rightarrow> Inr r_inputs
               | Some n \<Rightarrow>
                   interface_loop data_graph (outputs n) (size_uint (outputs n) - 1) 0 r_inputs) of
           Inl f \<Rightarrow> Inl f
         | Inr r_inputs' \<Rightarrow>
             (case (case output_node of
                      None \<Rightarrow> Inr r_outputs
                    | Some n \<Rightarrow>
                        interface_loop data_graph (inputs n) (size_uint (inputs n) - 1) 0
                          r_outputs) of
                Inl f \<Rightarrow> Inl f
              | Inr r_outputs' \<Rightarrow> Inr (r_inputs', r_outputs')))"

declare interface_loop.simps [simp del]

text \<open>
  What one run of the loop over a list of virtual sockets amounts to: each socket is looked
  up and added, in order, and the first fault ends the run. Used to describe the loop; the
  loop itself is \<open>interface_loop\<close>.
\<close>

fun add_sockets ::
  "VTreeDataGraph \<Rightarrow> DataSocket VectorSet \<Rightarrow> VirtualSocket list
     \<Rightarrow> fault + DataSocket VectorSet" where
  "add_sockets data_graph r [] = Inr r"
| "add_sockets data_graph r (vsocket # rest) =
     (case lookup_socket data_graph vsocket of
        Inl f \<Rightarrow> Inl f
      | Inr socket \<Rightarrow>
          (case add_new r socket of
             Inl f \<Rightarrow> Inl f
           | Inr r' \<Rightarrow> add_sockets data_graph r' rest))"

section \<open>Function generation (function\_generation.cpp)\<close>

text \<open>
  Modelled from the spec: \<open>FunctionGraph\<close>, \<open>Function\<close> and the three body passes are not
  part of the sources. A function graph references a data-flow graph and holds the two
  ordered sets of data sockets that are its declared inputs and outputs. \<open>new_function\<close>
  creates a Function with the given name, one input per input socket and one output per
  output socket, no body and no resource. Each pass attaches one body, built from the
  function graph, to the Function; \<open>derive_TupleCallBody_from_LLVMBuildIRBody\<close> is the
  alternative that derives the tuple-call body from the compiled body. \<open>add_resource\<close>
  hands an owned object over to the Function's resource list.
\<close>

record FunctionGraph =
  fg_graph :: DataGraph
  fg_inputs :: "DataSocket VectorSet"
  fg_outputs :: "DataSocket VectorSet"

datatype FunctionBody =
    DependenciesBody FunctionGraph
  | LLVMBuildIRBody FunctionGraph
  | FGraphTupleCallBody FunctionGraph
  | DerivedTupleCallBody

datatype resource =
    VirtualNodeTreeResource VirtualNodeTree
  | VTreeDataGraphResource VTreeDataGraph

record Function =
  m_name :: string
  input_amount :: nat
  output_amount :: nat
  m_bodies :: "FunctionBody list"
  m_resources :: "(resource \<times> string) list"

definition new_function :: "FunctionGraph \<Rightarrow> string \<Rightarrow> Function" where
  "new_function fgraph name =
     \<lparr>m_name = name,
      input_amount = length (fg_inputs fgraph),
      output_amount = length (fg_outputs fgraph),
      m_bodies = [],
      m_resources = []\<rparr>"

definition fgraph_add_DependenciesBody :: "Function \<Rightarrow> FunctionGraph \<Rightarrow> Function" where
  "fgraph_add_DependenciesBody fn fgraph = fn\<lparr>m_bodies := m_bodies fn @ [DependenciesBody fgraph]\<rparr>"

definition fgraph_add_LLVMBuildIRBody :: "Function \<Rightarrow> FunctionGraph \<Rightarrow> Function" where
  "fgraph_add_LLVMBuildIRBody fn fgraph = fn\<lparr>m_bodies := m_bodies fn @ [LLVMBuildIRBody fgraph]\<rparr>"

definition fgraph_add_TupleCallBody :: "Function \<Rightarrow> FunctionGraph \<Rightarrow> Function" where
  "fgraph_add_TupleCallBody fn fgraph = fn\<lparr>m_bodies := m_bodies fn @ [FGraphTupleCallBody fgraph]\<rparr>"

definition derive_TupleCallBody_from_LLVMBuildIRBody :: "Function \<Rightarrow> Function" where
  "derive_TupleCallBody_from_LLVMBuildIRBody fn = fn\<lparr>m_bodies := m_bodies fn @ [DerivedTupleCallBody]\<rparr>"

text \<open>
  Ownership. The objects a \<open>std::unique_ptr\<close> local to \<open>generate_function\<close> owns are kept in
  a multiset of live objects: \<open>make_unique\<close> and the graph handed over by \<open>extract()\<close> add
  one, the destructor of a \<open>unique_ptr\<close> that still owns its object (at a \<open>return\<close>) and
  \<open>std::move\<close> into \<open>add_resource\<close> remove one. What is live when the call returns, beyond
  what was live before, has been leaked.
\<close>

datatype heap_object = VirtualNodeTreeObject | VTreeDataGraphObject

type_synonym heap = "heap_object multiset"

definition add_resource ::
  "Function \<Rightarrow> heap \<Rightarrow> heap_object \<Rightarrow> resource \<Rightarrow> string \<Rightarrow> Function \<times> heap" where
  "add_resource fn h obj res name =
     (fn\<lparr>m_resources := m_resources fn @ [(res, name)]\<rparr>, h - {#obj#})"

text \<open>
  \<open>generate_function\<close>. The graph-construction pass \<open>generate_graph\<close> (graph\_generation.hpp,
  not part of the sources) is a parameter: it gives a data graph for the virtual tree, or
  nothing. The result is a fault, or the optional Function together with the live objects.
\<close>

definition generate_function ::
  "(VirtualNodeTree \<Rightarrow> VTreeDataGraph option) \<Rightarrow> heap \<Rightarrow> bNodeTree
     \<Rightarrow> fault + (Function option \<times> heap)" where
  "generate_function generate_graph h btree =
     (let h1 = add_mset VirtualNodeTreeObject h;
          vtree = VirtualNodeTree_new;
          vtree = add_all_of_tree vtree btree;
          vtree = freeze_and_index vtree;
          optional_data_graph = generate_graph vtree
      in case optional_data_graph of
           None \<Rightarrow> Inr (None, h1 - {#VirtualNodeTreeObject#})
         | Some data_graph \<Rightarrow>
             (let h2 = add_mset VTreeDataGraphObject h1;
                  input_sockets = [];
                  output_sockets = []
              in case find_interface_sockets vtree data_graph input_sockets output_sockets of
                   Inl f \<Rightarrow> Inl f
                 | Inr (input_sockets, output_sockets) \<Rightarrow>
                     (let fgraph = \<lparr>fg_graph = graph data_graph, fg_inputs = input_sockets,
                                    fg_outputs = output_sockets\<rparr>;
                          fn = new_function fgraph (id_name btree);
                          fn = fgraph_add_DependenciesBody fn fgraph;
                          fn = fgraph_add_LLVMBuildIRBody fn fgraph;
                          fn = fgraph_add_TupleCallBody fn fgraph;
                          (fn, h3) = add_resource fn h2 VirtualNodeTreeObject
                                       (VirtualNodeTreeResource vtree) ''Virtual Node Tree'';
                          (fn, h4) = add_resource fn h3 VTreeDataGraphObject
                                       (VTreeDataGraphResource data_graph) ''VTreeDataGraph''
                      in Inr (Some fn, h4))))"

text \<open>The frozen virtual tree \<open>generate_function\<close> builds for a tree.\<close>

definition frozen_vtree :: "bNodeTree \<Rightarrow> VirtualNodeTree" where
  "frozen_vtree btree = freeze_and_index (add_all_of_tree VirtualNodeTree_new btree)"


section \<open>Example trees and graphs\<close>

text \<open>
  The trivial tree: an input node exposing the output sockets 0 and 1 and the placeholder 2,
  an output node exposing the input socket 3 and the placeholder 4, socket 0 linked to
  socket 3.
\<close>

definition trivial_tree :: bNodeTree where
  "trivial_tree =
     \<lparr>id_name = ''NTtrivial'',
      b_nodes = [\<lparr>b_idname = ''fn_FunctionInputNode'', b_inputs = [], b_outputs = [0, 1, 2]\<rparr>,
                 \<lparr>b_idname = ''fn_FunctionOutputNode'', b_inputs = [3, 4], b_outputs = []\<rparr>],
      b_links = [(0, 3)]\<rparr>"

text \<open>A data graph for it in which every exposed socket has a data socket of its own.\<close>

definition trivial_graph :: VTreeDataGraph where
  "trivial_graph =
     \<lparr>graph = \<lparr>dg_links = [(DataSocket 0, DataSocket 2)]\<rparr>,
      m_socket_map = [VirtualSocket 0 \<mapsto> DataSocket 0, VirtualSocket 1 \<mapsto> DataSocket 1,
                      VirtualSocket 3 \<mapsto> DataSocket 2]\<rparr>"

text \<open>
  A tree in which the output node exposes two input sockets, 2 and 3, both linked to the one
  exposed socket 0 of the input node, and a data graph in which a linked input socket has
  the data socket of its origin: the sockets 0, 2 and 3 share one data socket.
\<close>

definition fanout_tree :: bNodeTree where
  "fanout_tree =
     \<lparr>id_name = ''NTfanout'',
      b_nodes = [\<lparr>b_idname = ''fn_FunctionInputNode'', b_inputs = [], b_outputs = [0, 1]\<rparr>,
                 \<lparr>b_idname = ''fn_FunctionOutputNode'', b_inputs = [2, 3, 4], b_outputs = []\<rparr>],
      b_links = [(0, 2), (0, 3)]\<rparr>"

definition fanout_graph :: VTreeDataGraph where
  "fanout_graph =
     \<lparr>graph = \<lparr>dg_links = []\<rparr>,
      m_socket_map = [VirtualSocket 0 \<mapsto> DataSocket 0, VirtualSocket 2 \<mapsto> DataSocket 0,
                      VirtualSocket 3 \<mapsto> DataSocket 0]\<rparr>"









section \<open>Properties of LazyState\<close>

lemma apply_op_keeps_done: "m_is_done s \<Longrightarrow> m_is_done (apply_op s x)"
  by (cases x) (simp_all add: start_next_entry_def request_input_def done_lazy_def)

lemma run_ops_keeps_done: "m_is_done s \<Longrightarrow> m_is_done (run_ops s xs)"
  by (induction xs arbitrary: s) (simp_all add: apply_op_keeps_done)

text \<open>
  C7. Whatever operations were applied to a LazyState before (in particular any number of
  \<open>request_input\<close> calls in earlier entries), \<open>requested_inputs\<close> read right after
  \<open>start_next_entry\<close> is the empty vector.
\<close>

theorem start_next_entry_resets_requests:
  "requested_inputs (start_next_entry (run_ops (LazyState_new p) ops)) = []
   \<and> requested_inputs (start_next_entry s) = []"
  by (simp add: requested_inputs_def start_next_entry_def)

text \<open>
  C8. The done state is terminal: after \<open>done\<close> has been called, \<open>is_done\<close> holds in every state reached by
  any further sequence of \<open>start_next_entry\<close>, \<open>request_input\<close> and \<open>done\<close>.
\<close>

theorem done_is_terminal:
  "is_done (run_ops (done_lazy s) ops)"
  unfolding is_done_def
  by (rule run_ops_keeps_done) (simp add: done_lazy_def)

section \<open>The discovery loop\<close>


lemma uint_succ:
  fixes i bound :: uint
  assumes "i < bound"
  shows "unat (i + 1) = Suc (unat i)"
proof -
  from assms have below: "unat i < unat bound"
    by (simp add: word_less_nat_alt)
  have "unat bound < 2 ^ 32"
    using unsigned_less [of bound, where 'a = nat] by simp
  with below have "unat i + unat (1 :: uint) < 2 ^ LENGTH(32)"
    by simp
  then have "unat (i + 1) = unat i + unat (1 :: uint)"
    by (simp only: unat_add_lem)
  then show ?thesis
    by simp
qed

lemma interface_loop_add_sockets:
  "unat bound \<le> length sockets \<Longrightarrow> i \<le> bound \<Longrightarrow>
   interface_loop data_graph sockets bound i r =
     add_sockets data_graph r (take (unat bound - unat i) (drop (unat i) sockets))"
proof (induction data_graph sockets bound i r rule: interface_loop.induct)
  case (1 data_graph sockets bound i r)
  show ?case
  proof (cases "i < bound")
    case False
    with "1.prems" have "i = bound" by simp
    then show ?thesis
      by (subst interface_loop.simps) simp
  next
    case True
    then have below: "unat i < unat bound"
      by (simp add: word_less_nat_alt)
    with "1.prems" have inside: "unat i < length sockets"
      by simp
    have succ: "unat (i + 1) = Suc (unat i)"
      using True by (rule uint_succ)
    have next_le: "i + 1 \<le> bound"
      using below succ by (simp add: word_le_nat_alt)
    have at: "socket_at sockets i = Inr (sockets ! unat i)"
      using inside by (simp add: socket_at_def)
    have split: "take (unat bound - unat i) (drop (unat i) sockets) =
                   sockets ! unat i # take (unat bound - unat (i + 1)) (drop (unat (i + 1)) sockets)"
    proof -
      have "unat bound - unat i = Suc (unat bound - Suc (unat i))"
        using below by simp
      moreover have "drop (unat i) sockets = sockets ! unat i # drop (Suc (unat i)) sockets"
        using inside by (simp add: Cons_nth_drop_Suc)
      ultimately show ?thesis
        by (simp add: succ)
    qed
    show ?thesis
    proof (cases "lookup_socket data_graph (sockets ! unat i)")
      case (Inl f)
      then show ?thesis
        by (subst interface_loop.simps) (simp add: True at split)
    next
      case (Inr socket)
      note looked_up = this
      show ?thesis
      proof (cases "add_new r socket")
        case (Inl f)
        then show ?thesis
          by (subst interface_loop.simps) (simp add: True at split looked_up)
      next
        case (Inr r')
        have "interface_loop data_graph sockets bound (i + 1) r' =
                add_sockets data_graph r'
                  (take (unat bound - unat (i + 1)) (drop (unat (i + 1)) sockets))"
          using "1.IH" [OF True at looked_up Inr "1.prems"(1) next_le] .
        then show ?thesis
          by (subst interface_loop.simps) (simp add: True at split looked_up Inr)
      qed
    qed
  qed
qed

lemma bound_of_nonempty:
  assumes "sockets \<noteq> []" and "length sockets < 2 ^ 32"
  shows "unat (size_uint sockets - 1) = length sockets - 1"
proof -
  have len: "unat (size_uint sockets) = length sockets"
    using assms(2) by (simp add: size_uint_def unat_of_nat)
  with assms(1) have "size_uint sockets \<noteq> 0"
    by (metis length_0_conv unat_0)
  then have "unat (size_uint sockets - 1) = unat (size_uint sockets) - 1"
    by (rule unat_minus_one)
  with len show ?thesis by simp
qed

lemma interface_loop_butlast:
  assumes "sockets \<noteq> []" and "length sockets < 2 ^ 32"
  shows "interface_loop data_graph sockets (size_uint sockets - 1) 0 r =
           add_sockets data_graph r (butlast sockets)"
proof -
  have b: "unat (size_uint sockets - 1) = length sockets - 1"
    using assms by (rule bound_of_nonempty)
  then have "unat (size_uint sockets - 1) \<le> length sockets"
    by simp
  then have "interface_loop data_graph sockets (size_uint sockets - 1) 0 r =
               add_sockets data_graph r
                 (take (unat (size_uint sockets - 1) - unat (0 :: uint)) (drop (unat (0 :: uint)) sockets))"
    by (rule interface_loop_add_sockets) simp
  then show ?thesis
    by (simp add: b butlast_conv_take)
qed




lemma add_sockets_Inr_iff:
  "add_sockets data_graph r vsockets = Inr r' \<longleftrightarrow>
     (\<exists>found. map (lookup_socket data_graph) vsockets = map Inr found
        \<and> r' = r @ found \<and> distinct found \<and> set r \<inter> set found = {})"
proof (induction vsockets arbitrary: r)
  case Nil
  then show ?case by auto
next
  case (Cons v vs)
  show ?case
  proof (cases "lookup_socket data_graph v")
    case (Inl f)
    then show ?thesis by (auto simp: map_eq_Cons_conv)
  next
    case (Inr socket)
    show ?thesis
    proof (cases "socket \<in> set r")
      case True
      then show ?thesis
        using Inr by (auto simp: add_new_def map_eq_Cons_conv)
    next
      case False
      have "add_sockets data_graph r (v # vs) = add_sockets data_graph (r @ [socket]) vs"
        using Inr False by (simp add: add_new_def)
      also have "\<dots> = Inr r' \<longleftrightarrow>
          (\<exists>found. map (lookup_socket data_graph) vs = map Inr found
             \<and> r' = (r @ [socket]) @ found \<and> distinct found
             \<and> set (r @ [socket]) \<inter> set found = {})"
        by (rule Cons.IH)
      also have "\<dots> \<longleftrightarrow>
          (\<exists>found. map (lookup_socket data_graph) (v # vs) = map Inr found
             \<and> r' = r @ found \<and> distinct found \<and> set r \<inter> set found = {})"
        (is "?L \<longleftrightarrow> ?R")
      proof
        assume ?L
        then obtain found where f: "map (lookup_socket data_graph) vs = map Inr found"
          "r' = (r @ [socket]) @ found" "distinct found"
          "set (r @ [socket]) \<inter> set found = {}"
          by blast
        have "map (lookup_socket data_graph) (v # vs) = map Inr (socket # found)"
          using f(1) Inr by simp
        moreover have "r' = r @ (socket # found)" using f(2) by simp
        moreover have "distinct (socket # found)" using f(3,4) by auto
        moreover have "set r \<inter> set (socket # found) = {}" using f(4) False by auto
        ultimately show ?R by blast
      next
        assume ?R
        then obtain found where f: "map (lookup_socket data_graph) (v # vs) = map Inr found"
          "r' = r @ found" "distinct found" "set r \<inter> set found = {}"
          by blast
        from f(1) Inr obtain rest where found: "found = socket # rest"
          and rest: "map (lookup_socket data_graph) vs = map Inr rest"
          by (cases found) auto
        have "r' = (r @ [socket]) @ rest" using f(2) found by simp
        moreover have "distinct rest" using f(3) found by simp
        moreover have "set (r @ [socket]) \<inter> set rest = {}" using f(3,4) found by auto
        ultimately show ?L using rest by blast
      qed
      finally show ?thesis .
    qed
  qed
qed

lemma add_sockets_from_empty:
  "add_sockets data_graph [] vsockets = Inr found \<longleftrightarrow>
     map (lookup_socket data_graph) vsockets = map Inr found \<and> distinct found"
  by (auto simp: add_sockets_Inr_iff)



lemma get_or_null_Cons: "get_or_null (x # xs) 0 = Some x"
  by (simp add: get_or_null_def)


section \<open>Properties of interface socket discovery\<close>

lemma frozen_vtree_nodes: "m_nodes (frozen_vtree btree) = map virtual_node_of (b_nodes btree)"
  by (simp add: frozen_vtree_def freeze_and_index_def add_all_of_tree_def VirtualNodeTree_new_def)

lemma find_interface_sockets_sides:
  assumes "nodes_with_idname vtree ''fn_FunctionInputNode'' = input_node # more_inputs"
      and "nodes_with_idname vtree ''fn_FunctionOutputNode'' = output_node # more_outputs"
  shows "find_interface_sockets vtree data_graph r_inputs r_outputs =
           (case interface_loop data_graph (outputs input_node)
                   (size_uint (outputs input_node) - 1) 0 r_inputs of
              Inl f \<Rightarrow> Inl f
            | Inr r_inputs' \<Rightarrow>
                (case interface_loop data_graph (inputs output_node)
                        (size_uint (inputs output_node) - 1) 0 r_outputs of
                   Inl f \<Rightarrow> Inl f
                 | Inr r_outputs' \<Rightarrow> Inr (r_inputs', r_outputs')))"
  by (simp add: find_interface_sockets_def assms get_or_null_Cons split: sum.splits)

lemma find_interface_sockets_both:
  assumes "nodes_with_idname vtree ''fn_FunctionInputNode'' = input_node # more_inputs"
      and "nodes_with_idname vtree ''fn_FunctionOutputNode'' = output_node # more_outputs"
      and "1 \<le> length (outputs input_node)" and "length (outputs input_node) < 2 ^ 32"
      and "1 \<le> length (inputs output_node)" and "length (inputs output_node) < 2 ^ 32"
  shows "find_interface_sockets vtree data_graph [] [] = Inr (found_inputs, found_outputs)
            \<longleftrightarrow> map (lookup_socket data_graph) (butlast (outputs input_node)) = map Inr found_inputs
                \<and> distinct found_inputs
                \<and> map (lookup_socket data_graph) (butlast (inputs output_node)) = map Inr found_outputs
                \<and> distinct found_outputs"
proof -
  have ne: "outputs input_node \<noteq> []" "inputs output_node \<noteq> []"
    using assms(3,5) by auto
  have eq: "find_interface_sockets vtree data_graph [] [] =
              (case add_sockets data_graph [] (butlast (outputs input_node)) of
                 Inl f \<Rightarrow> Inl f
               | Inr r_inputs' \<Rightarrow>
                   (case add_sockets data_graph [] (butlast (inputs output_node)) of
                      Inl f \<Rightarrow> Inl f
                    | Inr r_outputs' \<Rightarrow> Inr (r_inputs', r_outputs')))"
    by (simp add: find_interface_sockets_sides [OF assms(1,2)]
        interface_loop_butlast [OF ne(1) assms(4)] interface_loop_butlast [OF ne(2) assms(6)]
        split: sum.splits)
  have "find_interface_sockets vtree data_graph [] [] = Inr (found_inputs, found_outputs)
               \<longleftrightarrow> add_sockets data_graph [] (butlast (outputs input_node)) = Inr found_inputs
                   \<and> add_sockets data_graph [] (butlast (inputs output_node)) = Inr found_outputs"
    unfolding eq by (auto split: sum.splits)
  then show ?thesis
    by (simp add: add_sockets_from_empty)
qed

lemma map_Inr_same_length:
  "map look vsockets = map Inr found \<Longrightarrow> length found = length vsockets"
proof -
  assume same: "map look vsockets = map Inr found"
  show ?thesis
    using arg_cong [OF same, of length] by simp
qed

text \<open>
  C2 (amended). Let the tree have an input node and an output node, the ones discovery
  uses, with at least one socket each. Then \<open>find_interface_sockets\<close>, called with empty
  sets, produces a pair of sets exactly when every declared socket but the last of either
  node is mapped to a data socket and the data sockets of one side are pairwise distinct;
  the sets produced are these data sockets in declared order, so each has one element less
  than the node has sockets. (When two of these sockets share a data socket, or one is not
  mapped, discovery stops on a fault and produces nothing.)
\<close>

theorem find_interface_sockets_discovers:
  assumes "nodes_with_idname vtree ''fn_FunctionInputNode'' = input_node # more_inputs"
      and "nodes_with_idname vtree ''fn_FunctionOutputNode'' = output_node # more_outputs"
      and "1 \<le> length (outputs input_node)" and "length (outputs input_node) < 2 ^ 32"
      and "1 \<le> length (inputs output_node)" and "length (inputs output_node) < 2 ^ 32"
  shows "(find_interface_sockets vtree data_graph [] [] = Inr (found_inputs, found_outputs)
            \<longleftrightarrow> map (lookup_socket data_graph) (butlast (outputs input_node)) = map Inr found_inputs
                \<and> distinct found_inputs
                \<and> map (lookup_socket data_graph) (butlast (inputs output_node)) = map Inr found_outputs
                \<and> distinct found_outputs)
       \<and> (find_interface_sockets vtree data_graph [] [] = Inr (found_inputs, found_outputs)
            \<longrightarrow> length found_inputs = length (outputs input_node) - 1
                \<and> length found_outputs = length (inputs output_node) - 1)"
proof -
  note first = find_interface_sockets_both [OF assms, of data_graph found_inputs found_outputs]
  have sizes: "length found_inputs = length (outputs input_node) - 1
          \<and> length found_outputs = length (inputs output_node) - 1"
    if "find_interface_sockets vtree data_graph [] [] = Inr (found_inputs, found_outputs)"
  proof -
    from that first
    have a: "map (lookup_socket data_graph) (butlast (outputs input_node)) = map Inr found_inputs"
      and b: "map (lookup_socket data_graph) (butlast (inputs output_node)) = map Inr found_outputs"
      by simp_all
    have "length found_inputs = length (butlast (outputs input_node))"
      using a by (rule map_Inr_same_length)
    moreover have "length found_outputs = length (butlast (inputs output_node))"
      using b by (rule map_Inr_same_length)
    ultimately show ?thesis
      by simp
  qed
  show ?thesis
  proof (intro conjI impI)
    show "find_interface_sockets vtree data_graph [] [] = Inr (found_inputs, found_outputs)
            \<longleftrightarrow> map (lookup_socket data_graph) (butlast (outputs input_node)) = map Inr found_inputs
                \<and> distinct found_inputs
                \<and> map (lookup_socket data_graph) (butlast (inputs output_node)) = map Inr found_outputs
                \<and> distinct found_outputs"
      by (rule first)
  next
    assume "find_interface_sockets vtree data_graph [] [] = Inr (found_inputs, found_outputs)"
    then have "length found_inputs = length (outputs input_node) - 1
          \<and> length found_outputs = length (inputs output_node) - 1"
      by (rule sizes)
    then show "length found_inputs = length (outputs input_node) - 1"
      and "length found_outputs = length (inputs output_node) - 1"
      by simp_all
  qed
qed

lemma trivial_input_nodes:
  "nodes_with_idname (frozen_vtree trivial_tree) ''fn_FunctionInputNode'' =
     [\<lparr>idname = ''fn_FunctionInputNode'', inputs = [],
       outputs = [VirtualSocket 0, VirtualSocket 1, VirtualSocket 2]\<rparr>]"
  by (simp add: nodes_with_idname_def frozen_vtree_nodes trivial_tree_def virtual_node_of_def)

lemma trivial_output_nodes:
  "nodes_with_idname (frozen_vtree trivial_tree) ''fn_FunctionOutputNode'' =
     [\<lparr>idname = ''fn_FunctionOutputNode'', inputs = [VirtualSocket 3, VirtualSocket 4],
       outputs = []\<rparr>]"
  by (simp add: nodes_with_idname_def frozen_vtree_nodes trivial_tree_def virtual_node_of_def)

theorem find_interface_sockets_discovers_witness:
  "find_interface_sockets (frozen_vtree trivial_tree) trivial_graph [] []
     = Inr ([DataSocket 0, DataSocket 1], [DataSocket 2])"
  using find_interface_sockets_discovers [OF trivial_input_nodes trivial_output_nodes,
      of trivial_graph "[DataSocket 0, DataSocket 1]" "[DataSocket 2]"]
  by (simp add: lookup_socket_def trivial_graph_def)

lemma fanout_input_nodes:
  "nodes_with_idname (frozen_vtree fanout_tree) ''fn_FunctionInputNode'' =
     [\<lparr>idname = ''fn_FunctionInputNode'', inputs = [],
       outputs = [VirtualSocket 0, VirtualSocket 1]\<rparr>]"
  by (simp add: nodes_with_idname_def frozen_vtree_nodes fanout_tree_def virtual_node_of_def)

lemma fanout_output_nodes:
  "nodes_with_idname (frozen_vtree fanout_tree) ''fn_FunctionOutputNode'' =
     [\<lparr>idname = ''fn_FunctionOutputNode'',
       inputs = [VirtualSocket 2, VirtualSocket 3, VirtualSocket 4], outputs = []\<rparr>]"
  by (simp add: nodes_with_idname_def frozen_vtree_nodes fanout_tree_def virtual_node_of_def)

text \<open>
  C2 as stated fails. The fan-out tree has an input node and an output node with at least
  one socket each, but the data sockets looked up for the two exposed sockets of the output
  node are the same one, so no output set of two pairwise distinct looked-up sockets exists:
  the second \<open>add_new\<close> stops on a fault, and discovery produces no sets.
\<close>

theorem shared_socket_discovery_faults:
  "find_interface_sockets (frozen_vtree fanout_tree) fanout_graph [] [] = Inl ElementNotNew
   \<and> map (lookup_socket fanout_graph) [VirtualSocket 2, VirtualSocket 3]
       = [Inr (DataSocket 0), Inr (DataSocket 0)]"
  by (simp add: find_interface_sockets_sides [OF fanout_input_nodes fanout_output_nodes]
      interface_loop_butlast lookup_socket_def fanout_graph_def add_new_def split: sum.splits)




















section \<open>The wrapped loop bound\<close>







section \<open>More than one node of a kind\<close>









section \<open>Stack frames around a call\<close>

lemma pop_push: "pop (push ctx frame) = Inr ctx"
  by (simp add: pop_def push_def)

lemma pop_same_stack:
  "stack ctx2 = frame # below \<Longrightarrow> pop ctx2 = Inr (ctx2\<lparr>stack := below\<rparr>)"
  by (simp add: pop_def)

lemma call__setup_stack_kept:
  assumes "\<forall>a b c. stack (snd (snd (call this a b c))) = stack c"
  shows "call__setup_stack this fn_in fn_out ctx =
           (case call this fn_in fn_out (push ctx (TextStackFrame (owner_name this))) of
              (fn_in', fn_out', ctx') \<Rightarrow> Inr (fn_in', fn_out', ctx'\<lparr>stack := stack ctx\<rparr>))"
proof -
  obtain a b c where r: "call this fn_in fn_out (push ctx (TextStackFrame (owner_name this)))
                           = (a, b, c)"
    by (cases "call this fn_in fn_out (push ctx (TextStackFrame (owner_name this)))") auto
  have "stack c = stack (push ctx (TextStackFrame (owner_name this)))"
    using assms [rule_format, of fn_in fn_out "push ctx (TextStackFrame (owner_name this))"] r
    by simp
  then have "stack c = TextStackFrame (owner_name this) # stack ctx"
    by (simp add: push_def)
  then have "pop c = Inr (c\<lparr>stack := stack ctx\<rparr>)"
    by (rule pop_same_stack)
  then show ?thesis
    by (simp add: call__setup_stack_def Let_def r)
qed

lemma call__setup_stack_extra_kept:
  assumes "\<forall>a b c. stack (snd (snd (call this a b c))) = stack c"
  shows "call__setup_stack_extra this fn_in fn_out ctx extra_frame =
           (case call this fn_in fn_out
                   (push (push ctx extra_frame) (TextStackFrame (owner_name this))) of
              (fn_in', fn_out', ctx') \<Rightarrow> Inr (fn_in', fn_out', ctx'\<lparr>stack := stack ctx\<rparr>))"
proof -
  obtain a b c where r: "call this fn_in fn_out
                           (push (push ctx extra_frame) (TextStackFrame (owner_name this)))
                           = (a, b, c)"
    by (cases "call this fn_in fn_out
                 (push (push ctx extra_frame) (TextStackFrame (owner_name this)))") auto
  have "call__setup_stack this fn_in fn_out (push ctx extra_frame) =
          Inr (a, b, c\<lparr>stack := stack (push ctx extra_frame)\<rparr>)"
    by (simp add: call__setup_stack_kept [OF assms] r)
  moreover have "pop (c\<lparr>stack := stack (push ctx extra_frame)\<rparr>) = Inr (c\<lparr>stack := stack ctx\<rparr>)"
    by (simp add: pop_def push_def)
  ultimately show ?thesis
    by (simp add: call__setup_stack_extra_def Let_def r)
qed

lemma lazy_call__setup_stack_kept:
  assumes "\<forall>a b c s. stack (fst (snd (snd (lazy_call this a b c s)))) = stack c"
  shows "lazy_call__setup_stack this fn_in fn_out ctx state =
           (case lazy_call this fn_in fn_out
                   (push ctx (TextStackFrame (lazy_owner_name this))) state of
              (fn_in', fn_out', ctx', state') \<Rightarrow>
                Inr (fn_in', fn_out', ctx'\<lparr>stack := stack ctx\<rparr>, state'))"
proof -
  obtain a b c s where r: "lazy_call this fn_in fn_out
                             (push ctx (TextStackFrame (lazy_owner_name this))) state
                             = (a, b, c, s)"
    by (cases "lazy_call this fn_in fn_out
                 (push ctx (TextStackFrame (lazy_owner_name this))) state") auto
  have "stack c = stack (push ctx (TextStackFrame (lazy_owner_name this)))"
    using assms [rule_format, of fn_in fn_out
                   "push ctx (TextStackFrame (lazy_owner_name this))" state] r
    by simp
  then have "stack c = TextStackFrame (lazy_owner_name this) # stack ctx"
    by (simp add: push_def)
  then have "pop c = Inr (c\<lparr>stack := stack ctx\<rparr>)"
    by (rule pop_same_stack)
  then show ?thesis
    by (simp add: lazy_call__setup_stack_def Let_def r)
qed

lemma lazy_call__setup_stack_extra_kept:
  assumes "\<forall>a b c s. stack (fst (snd (snd (lazy_call this a b c s)))) = stack c"
  shows "lazy_call__setup_stack_extra this fn_in fn_out ctx state extra_frame =
           (case lazy_call this fn_in fn_out
                   (push (push ctx extra_frame) (TextStackFrame (lazy_owner_name this))) state of
              (fn_in', fn_out', ctx', state') \<Rightarrow>
                Inr (fn_in', fn_out', ctx'\<lparr>stack := stack ctx\<rparr>, state'))"
proof -
  obtain a b c s where r: "lazy_call this fn_in fn_out
                             (push (push ctx extra_frame) (TextStackFrame (lazy_owner_name this)))
                             state = (a, b, c, s)"
    by (cases "lazy_call this fn_in fn_out
                 (push (push ctx extra_frame) (TextStackFrame (lazy_owner_name this))) state")
       auto
  have "lazy_call__setup_stack this fn_in fn_out (push ctx extra_frame) state =
          Inr (a, b, c\<lparr>stack := stack (push ctx extra_frame)\<rparr>, s)"
    by (simp add: lazy_call__setup_stack_kept [OF assms] r)
  moreover have "pop (c\<lparr>stack := stack (push ctx extra_frame)\<rparr>) = Inr (c\<lparr>stack := stack ctx\<rparr>)"
    by (simp add: pop_def push_def)
  ultimately show ?thesis
    by (simp add: lazy_call__setup_stack_extra_def Let_def r)
qed

text \<open>
  C6 (amended). For a tuple-call body whose \<open>call\<close> returns with the frame stack as it
  received it, every overload of \<open>call__setup_stack\<close> invokes \<open>call\<close> with the frame named
  after the owning Function on top of the stack (and the caller-supplied frame, or the
  source-info frame, below it) and returns with the frame stack the caller had before the
  call, without a fault. The same holds for the three overloads of the lazy variant.
\<close>

theorem call__setup_stack_balanced:
  assumes "\<forall>a b c. stack (snd (snd (call body a b c))) = stack c"
      and "\<forall>a b c s. stack (fst (snd (snd (lazy_call lazy_body a b c s)))) = stack c"
  shows "call__setup_stack body fn_in fn_out ctx =
           (case call body fn_in fn_out (push ctx (TextStackFrame (owner_name body))) of
              (fn_in', fn_out', ctx') \<Rightarrow> Inr (fn_in', fn_out', ctx'\<lparr>stack := stack ctx\<rparr>))
       \<and> call__setup_stack_extra body fn_in fn_out ctx extra_frame =
           (case call body fn_in fn_out
                   (push (push ctx extra_frame) (TextStackFrame (owner_name body))) of
              (fn_in', fn_out', ctx') \<Rightarrow> Inr (fn_in', fn_out', ctx'\<lparr>stack := stack ctx\<rparr>))
       \<and> call__setup_stack_source body fn_in fn_out ctx source_info =
           (case call body fn_in fn_out
                   (push (push ctx (SourceInfoStackFrame source_info))
                      (TextStackFrame (owner_name body))) of
              (fn_in', fn_out', ctx') \<Rightarrow> Inr (fn_in', fn_out', ctx'\<lparr>stack := stack ctx\<rparr>))
       \<and> lazy_call__setup_stack lazy_body fn_in fn_out ctx state =
           (case lazy_call lazy_body fn_in fn_out
                   (push ctx (TextStackFrame (lazy_owner_name lazy_body))) state of
              (fn_in', fn_out', ctx', state') \<Rightarrow>
                Inr (fn_in', fn_out', ctx'\<lparr>stack := stack ctx\<rparr>, state'))
       \<and> lazy_call__setup_stack_extra lazy_body fn_in fn_out ctx state extra_frame =
           (case lazy_call lazy_body fn_in fn_out
                   (push (push ctx extra_frame) (TextStackFrame (lazy_owner_name lazy_body)))
                   state of
              (fn_in', fn_out', ctx', state') \<Rightarrow>
                Inr (fn_in', fn_out', ctx'\<lparr>stack := stack ctx\<rparr>, state'))
       \<and> lazy_call__setup_stack_source lazy_body fn_in fn_out ctx state source_info =
           (case lazy_call lazy_body fn_in fn_out
                   (push (push ctx (SourceInfoStackFrame source_info))
                      (TextStackFrame (lazy_owner_name lazy_body))) state of
              (fn_in', fn_out', ctx', state') \<Rightarrow>
                Inr (fn_in', fn_out', ctx'\<lparr>stack := stack ctx\<rparr>, state'))"
proof (intro conjI)
  show "call__setup_stack body fn_in fn_out ctx =
           (case call body fn_in fn_out (push ctx (TextStackFrame (owner_name body))) of
              (fn_in', fn_out', ctx') \<Rightarrow> Inr (fn_in', fn_out', ctx'\<lparr>stack := stack ctx\<rparr>))"
    using assms(1) by (rule call__setup_stack_kept)
  show "call__setup_stack_extra body fn_in fn_out ctx extra_frame =
           (case call body fn_in fn_out
                   (push (push ctx extra_frame) (TextStackFrame (owner_name body))) of
              (fn_in', fn_out', ctx') \<Rightarrow> Inr (fn_in', fn_out', ctx'\<lparr>stack := stack ctx\<rparr>))"
    using assms(1) by (rule call__setup_stack_extra_kept)
  show "call__setup_stack_source body fn_in fn_out ctx source_info =
           (case call body fn_in fn_out
                   (push (push ctx (SourceInfoStackFrame source_info))
                      (TextStackFrame (owner_name body))) of
              (fn_in', fn_out', ctx') \<Rightarrow> Inr (fn_in', fn_out', ctx'\<lparr>stack := stack ctx\<rparr>))"
    unfolding call__setup_stack_source_def Let_def
    using assms(1) by (rule call__setup_stack_extra_kept)
  show "lazy_call__setup_stack lazy_body fn_in fn_out ctx state =
           (case lazy_call lazy_body fn_in fn_out
                   (push ctx (TextStackFrame (lazy_owner_name lazy_body))) state of
              (fn_in', fn_out', ctx', state') \<Rightarrow>
                Inr (fn_in', fn_out', ctx'\<lparr>stack := stack ctx\<rparr>, state'))"
    using assms(2) by (rule lazy_call__setup_stack_kept)
  show "lazy_call__setup_stack_extra lazy_body fn_in fn_out ctx state extra_frame =
           (case lazy_call lazy_body fn_in fn_out
                   (push (push ctx extra_frame) (TextStackFrame (lazy_owner_name lazy_body)))
                   state of
              (fn_in', fn_out', ctx', state') \<Rightarrow>
                Inr (fn_in', fn_out', ctx'\<lparr>stack := stack ctx\<rparr>, state'))"
    using assms(2) by (rule lazy_call__setup_stack_extra_kept)
  show "lazy_call__setup_stack_source lazy_body fn_in fn_out ctx state source_info =
           (case lazy_call lazy_body fn_in fn_out
                   (push (push ctx (SourceInfoStackFrame source_info))
                      (TextStackFrame (lazy_owner_name lazy_body))) state of
              (fn_in', fn_out', ctx', state') \<Rightarrow>
                Inr (fn_in', fn_out', ctx'\<lparr>stack := stack ctx\<rparr>, state'))"
    unfolding lazy_call__setup_stack_source_def Let_def
    using assms(2) by (rule lazy_call__setup_stack_extra_kept)
qed

lemma idle_body_keeps: "\<forall>a b c. stack (snd (snd (call idle_body a b c))) = stack c"
  by (simp add: idle_body_def)

lemma idle_lazy_body_keeps:
  "\<forall>a b c s. stack (fst (snd (snd (lazy_call idle_lazy_body a b c s)))) = stack c"
  by (simp add: idle_lazy_body_def)

theorem call__setup_stack_balanced_witness:
  "call__setup_stack idle_body [Some 1] [None] \<lparr>stack = [OtherStackFrame 7]\<rparr>
     = Inr ([Some 1], [None], \<lparr>stack = [OtherStackFrame 7]\<rparr>)
   \<and> call__setup_stack_extra idle_body [Some 1] [None] \<lparr>stack = [OtherStackFrame 7]\<rparr>
        (OtherStackFrame 8)
     = Inr ([Some 1], [None], \<lparr>stack = [OtherStackFrame 7]\<rparr>)
   \<and> lazy_call__setup_stack_source idle_lazy_body [Some 1] [None]
        \<lparr>stack = [OtherStackFrame 7]\<rparr> (LazyState_new 0) None
     = Inr ([Some 1], [None], \<lparr>stack = [OtherStackFrame 7]\<rparr>, done_lazy (LazyState_new 0))"
  using call__setup_stack_balanced [OF idle_body_keeps idle_lazy_body_keeps,
          of "[Some 1]" "[None]" "\<lparr>stack = [OtherStackFrame 7]\<rparr>" "OtherStackFrame 8" None
             "LazyState_new 0"]
  by (simp add: idle_body_def idle_lazy_body_def push_def)

text \<open>
  C6 as stated fails for a body whose \<open>call\<close> pushes a frame of its own and does not pop it:
  \<open>call__setup_stack\<close> then pops that frame, and the frame named after the Function stays
  on the stack the caller gets back.
\<close>

theorem pushing_body_leaves_frame:
  "call__setup_stack pushing_body [] [] \<lparr>stack = []\<rparr>
     = Inr ([], [], \<lparr>stack = [TextStackFrame ''f'']\<rparr>)"
  by (simp add: call__setup_stack_def pushing_body_def push_def pop_def)

lemma generate_function_unfold:
  "generate_function generate_graph h btree =
     (case generate_graph (frozen_vtree btree) of
        None \<Rightarrow> Inr (None, h)
      | Some data_graph \<Rightarrow>
          (case find_interface_sockets (frozen_vtree btree) data_graph [] [] of
             Inl f \<Rightarrow> Inl f
           | Inr (input_sockets, output_sockets) \<Rightarrow>
               Inr (Some
                 \<lparr>m_name = id_name btree,
                  input_amount = length input_sockets,
                  output_amount = length output_sockets,
                  m_bodies =
                    [DependenciesBody \<lparr>fg_graph = graph data_graph, fg_inputs = input_sockets,
                                        fg_outputs = output_sockets\<rparr>,
                     LLVMBuildIRBody \<lparr>fg_graph = graph data_graph, fg_inputs = input_sockets,
                                       fg_outputs = output_sockets\<rparr>,
                     FGraphTupleCallBody \<lparr>fg_graph = graph data_graph, fg_inputs = input_sockets,
                                           fg_outputs = output_sockets\<rparr>],
                  m_resources =
                    [(VirtualNodeTreeResource (frozen_vtree btree), ''Virtual Node Tree''),
                     (VTreeDataGraphResource data_graph, ''VTreeDataGraph'')]\<rparr>, h)))"
  by (simp add: generate_function_def frozen_vtree_def Let_def new_function_def
      fgraph_add_DependenciesBody_def fgraph_add_LLVMBuildIRBody_def
      fgraph_add_TupleCallBody_def add_resource_def
      split: option.splits sum.splits prod.splits)

section \<open>Function generation\<close>

text \<open>
  C1. Whenever the graph-construction pass gives no data graph for the frozen tree,
  \<open>generate_function\<close> returns the empty optional: it does not stop on a fault, it returns
  no Function, and the objects that are live afterwards are those that were live before.
\<close>

theorem generate_function_graph_failure:
  "generate_graph (frozen_vtree btree) = None \<Longrightarrow>
   generate_function generate_graph h btree = Inr (None, h)"
  by (simp add: generate_function_unfold)

theorem generate_function_graph_failure_witness:
  "generate_function (\<lambda>vtree. None) {#VTreeDataGraphObject#} trivial_tree
     = Inr (None, {#VTreeDataGraphObject#})"
  by (rule generate_function_graph_failure) simp








end
